theory Spec2Isabelle
  imports Main "HOL-Library.AList"
begin

section \<open>The launcher \<open>app.py\<close> as a function of its surroundings\<close>

text \<open>
  \<open>app.py\<close> runs \<open>node --version\<close>, \<open>npm --version\<close>, \<open>npm install\<close> and
  \<open>npm run build\<close> with \<open>subprocess.run(..., check=True)\<close>, then starts \<open>npm start\<close> with
  \<open>subprocess.Popen\<close>, relays its output from a thread and waits for it. Everything the
  script does depends on what the operating system answers, so the model takes those
  answers as a value of type \<open>world\<close> and returns what the script does with them: the
  events of the main thread in order, the lines written by the relay thread, the exit
  status of the interpreter (\<open>None\<close> when it never exits) and the heap of dictionaries.

  What the model leaves out. The texts of the messages are given without their emoji,
  which are not ASCII. The rendering \<open>str(e)\<close> of an exception inside an f-string is not
  computed: \<open>PrintExn s e\<close> stands for the line \<open>s\<close> followed by \<open>str(e)\<close>. A
  \<open>KeyboardInterrupt\<close> is considered only where the source handles it, while the main
  thread waits for the server. A setup command that starts is taken to exit. The relay
  thread is taken to read the stream of the server to its end; it is a daemon thread
  that the main thread never joins, and how far it gets before the interpreter exits is
  a matter of scheduling that the model does not follow. Standard output is taken to
  accept every line that is printed.

  A Python \<open>str\<close> that comes from the server is a list of code points. The bytes of the
  server reach the script through the text layer of \<open>Popen(universal_newlines=True)\<close>,
  which decodes them chunk by chunk with the codec of the locale; what that codec makes
  of each chunk is an answer of the world, too.
\<close>

subsection \<open>Data\<close>

type_synonym command = "string list"

type_synonym environment = "(string \<times> string) list"

text \<open>The heap holds the dictionaries of the script; a reference is an index into it.\<close>

type_synonym heap = "environment list"

text \<open>A Python \<open>str\<close> as the list of its code points.\<close>

type_synonym str = "nat list"

text \<open>
  One chunk of the bytes that the text layer reads from the pipe of the server: the text
  that decoding it delivers, or a chunk on which the decoder raises.
\<close>

datatype chunk = Decoded str | Undecodable

datatype oserror = ENOENT | EACCES

text \<open>
  The exceptions that can travel through the script. \<open>SystemExit\<close> is not a subclass of
  \<open>Exception\<close>; the other four are. \<open>UnicodeDecodeError\<close> arises in the relay thread
  only.
\<close>

datatype exn =
    CalledProcessError int command
  | FileNotFoundError
  | PermissionError
  | UnicodeDecodeError
  | SystemExit int

text \<open>What a command does when \<open>subprocess.run\<close> starts it.\<close>

datatype child = Exits int | CannotSpawn oserror

text \<open>
  What happens while the main thread sits in \<open>process.wait()\<close>: the server exits by
  itself with a code; or the operator interrupts, and after \<open>terminate()\<close> the server
  either exits with a code or ignores the request; or nothing happens at all.
\<close>

datatype fate = ExitsOnOwn int | Interrupted "int option" | RunsOn

text \<open>
  What \<open>Popen\<close> gives: a failure to start, or a running server with the chunks of its
  combined output, in order, and its fate.
\<close>

datatype server = LaunchFails oserror | Launched "chunk list" fate

record world =
  os_environ :: environment
  os_run :: "command \<Rightarrow> child"
  os_popen :: "command \<Rightarrow> server"

datatype event =
    Print string
  | PrintExn string exn
  | Spawn command environment
  | Reaped command int
  | Terminate command
  | Traceback exn

datatype completion = Returns | Raises exn | Blocks

type_synonym effect = "event list \<times> completion"

record run =
  trace :: "event list"
  relayed :: "str list"
  relay_error :: "exn option"
  status :: "int option"
  store :: heap

subsection \<open>The five commands\<close>

definition node_version :: command where
  "node_version = [''node'', ''--version'']"

definition npm_version :: command where
  "npm_version = [''npm'', ''--version'']"

definition npm_install :: command where
  "npm_install = [''npm'', ''install'']"

definition npm_run_build :: command where
  "npm_run_build = [''npm'', ''run'', ''build'']"

definition npm_start :: command where
  "npm_start = [''npm'', ''start'']"

subsection \<open>Python pieces\<close>

fun oserror_exn :: "oserror \<Rightarrow> exn" where
  "oserror_exn ENOENT = FileNotFoundError"
| "oserror_exn EACCES = PermissionError"

fun is_CalledProcessError :: "exn \<Rightarrow> bool" where
  "is_CalledProcessError (CalledProcessError rc cmd) = True"
| "is_CalledProcessError e = False"

text \<open>Statement sequencing: the second statement runs only when the first returns.\<close>

definition andthen :: "effect \<Rightarrow> effect \<Rightarrow> effect" where
  "andthen a b = (case snd a of Returns \<Rightarrow> (fst a @ fst b, snd b) | _ \<Rightarrow> a)"

definition print :: "string \<Rightarrow> effect" where
  "print s = ([Print s], Returns)"

text \<open>
  \<open>subprocess.run(cmd, check=True)\<close>: the child inherits the dictionary \<open>os.environ\<close>,
  the call blocks until the child has exited, and a non-zero return code raises.
\<close>

definition environ_ref :: nat where
  "environ_ref = 0"

definition subprocess_run :: "world \<Rightarrow> heap \<Rightarrow> command \<Rightarrow> effect" where
  "subprocess_run w h cmd =
     (case os_run w cmd of
        CannotSpawn e \<Rightarrow> ([], Raises (oserror_exn e))
      | Exits rc \<Rightarrow>
          ([Spawn cmd (h ! environ_ref), Reaped cmd rc],
           if rc \<noteq> 0 then Raises (CalledProcessError rc cmd) else Returns))"

text \<open>\<open>d.copy()\<close> allocates a new dictionary; \<open>d[k] = v\<close> changes the one \<open>d\<close> refers to.\<close>

definition dict_copy :: "heap \<Rightarrow> nat \<Rightarrow> heap \<times> nat" where
  "dict_copy h a = (h @ [h ! a], length h)"

definition dict_setitem :: "heap \<Rightarrow> nat \<Rightarrow> string \<Rightarrow> string \<Rightarrow> heap" where
  "dict_setitem h a k v = h[a := AList.update k v (h ! a)]"

definition ascii :: "string \<Rightarrow> str" where
  "ascii s = map of_char s"

text \<open>
  The code points that \<open>str.strip()\<close> removes, those for which \<open>str.isspace()\<close> holds:
  tab to carriage return, the separators \<open>0x1C\<close> to \<open>0x1F\<close>, the space, next line,
  no-break space, and the space characters beyond Latin-1.
\<close>

definition is_space :: "nat \<Rightarrow> bool" where
  "is_space n =
     ((0x09 \<le> n \<and> n \<le> 0x0D) \<or> (0x1C \<le> n \<and> n \<le> 0x20) \<or> n = 0x85 \<or> n = 0xA0 \<or>
      n = 0x1680 \<or> (0x2000 \<le> n \<and> n \<le> 0x200A) \<or> n = 0x2028 \<or> n = 0x2029 \<or>
      n = 0x202F \<or> n = 0x205F \<or> n = 0x3000)"

definition strip :: "str \<Rightarrow> str" where
  "strip s = rev (dropWhile is_space (rev (dropWhile is_space s)))"

text \<open>
  The text layer. \<open>decoded_prefix\<close> gives the text of the chunks before the first one
  that does not decode, and whether all of them decode.
\<close>

fun decoded_prefix :: "chunk list \<Rightarrow> str \<times> bool" where
  "decoded_prefix [] = ([], True)"
| "decoded_prefix (Undecodable # cs) = ([], False)"
| "decoded_prefix (Decoded t # cs) = (t @ fst (decoded_prefix cs), snd (decoded_prefix cs))"

text \<open>
  Universal newlines: a carriage return followed by a line feed, and a carriage return
  alone, both become one line feed.
\<close>

fun translate_newlines :: "str \<Rightarrow> str" where
  "translate_newlines [] = []"
| "translate_newlines [c] = (if c = 0x0D then [0x0A] else [c])"
| "translate_newlines (c # d # cs) =
     (if c = 0x0D \<and> d = 0x0A then 0x0A # translate_newlines cs
      else if c = 0x0D then 0x0A # translate_newlines (d # cs)
      else c # translate_newlines (d # cs))"

text \<open>
  Lines end at a line feed and keep it; what follows the last line feed is a line of its
  own when it is not empty. \<open>cur\<close> is the line read so far.
\<close>

fun lines_from :: "str \<Rightarrow> str \<Rightarrow> str list" where
  "lines_from cur [] = (if cur = [] then [] else [cur])"
| "lines_from cur (c # cs) =
     (if c = 0x0A then (cur @ [c]) # lines_from [] cs else lines_from (cur @ [c]) cs)"

definition text_lines :: "str \<Rightarrow> str list" where
  "text_lines t = lines_from [] (translate_newlines t)"

text \<open>
  While more bytes may come, a carriage return at the end of the decoded text is held
  back, since a line feed may follow it, and a line without its line feed is not
  complete.
\<close>

definition held_back :: "str \<Rightarrow> str" where
  "held_back t = (if t \<noteq> [] \<and> last t = 0x0D then butlast t else t)"

definition complete :: "str \<Rightarrow> bool" where
  "complete l = (l \<noteq> [] \<and> last l = 0x0A)"

text \<open>
  Iterating over \<open>process.stdout\<close>: when every chunk decodes, the lines of the whole
  text; otherwise the complete lines of the text before the chunk that does not decode,
  and then \<open>UnicodeDecodeError\<close>.
\<close>

definition readlines :: "chunk list \<Rightarrow> str list \<times> exn option" where
  "readlines out =
     (case decoded_prefix out of
        (t, True) \<Rightarrow> (text_lines t, None)
      | (t, False) \<Rightarrow> (filter complete (text_lines (held_back t)), Some UnicodeDecodeError))"

subsection \<open>The functions of \<open>app.py\<close>\<close>

definition install_node_dependencies :: "world \<Rightarrow> heap \<Rightarrow> effect" where
  "install_node_dependencies w h =
     andthen (print ''Installing Node.js dependencies...'')
       (case subprocess_run w h npm_install of
          (evs, Returns) \<Rightarrow> (evs @ [Print ''Dependencies installed successfully''], Returns)
        | (evs, Raises e) \<Rightarrow>
            if is_CalledProcessError e
            then (evs @ [PrintExn ''Failed to install dependencies: '' e], Raises (SystemExit 1))
            else (evs, Raises e)
        | (evs, Blocks) \<Rightarrow> (evs, Blocks))"

definition build_application :: "world \<Rightarrow> heap \<Rightarrow> effect" where
  "build_application w h =
     andthen (print ''Building React application...'')
       (case subprocess_run w h npm_run_build of
          (evs, Returns) \<Rightarrow> (evs @ [Print ''Application built successfully''], Returns)
        | (evs, Raises e) \<Rightarrow>
            if is_CalledProcessError e
            then (evs @ [PrintExn ''Failed to build application: '' e], Raises (SystemExit 1))
            else (evs, Raises e)
        | (evs, Blocks) \<Rightarrow> (evs, Blocks))"

text \<open>
  The body of the relay thread: one printed line for each line that the stream yields,
  and the exception of the stream, if any, ends the thread.
\<close>

definition log_output :: "chunk list \<Rightarrow> str list \<times> exn option" where
  "log_output out =
     (case readlines out of
        (ys, e) \<Rightarrow> (map (\<lambda>line. ascii ''[SERVER] '' @ strip line) ys, e))"

text \<open>
  \<open>start_server\<close> returns the heap, the events of the main thread, and the lines and
  the end of the relay thread. The relay thread is taken to read the stream to its end.
\<close>

definition start_server ::
  "world \<Rightarrow> heap \<Rightarrow> heap \<times> effect \<times> str list \<times> exn option" where
  "start_server w h =
     (let (h1, env) = dict_copy h environ_ref;
          h2 = dict_setitem h1 env ''NODE_ENV'' ''production'';
          h3 = dict_setitem h2 env ''PORT'' ''7860'';
          cmd = npm_start
      in case os_popen w cmd of
           LaunchFails e \<Rightarrow>
             (h3,
              ([Print ''Starting Emotional Codex Companion server...'',
                PrintExn ''Server error: '' (oserror_exn e)],
               Raises (SystemExit 1)),
              ([], None))
         | Launched ls f \<Rightarrow>
             (h3,
              andthen
                ([Print ''Starting Emotional Codex Companion server...'',
                  Spawn cmd (h3 ! env),
                  Print ''Server started successfully on port 7860'',
                  Print ''Emotional Codex Companion is now running!'',
                  Print ''Features: 91+ emotion variants, professional analysis, cultural context''],
                 Returns)
                (case f of
                   ExitsOnOwn rc \<Rightarrow> ([Reaped cmd rc], Returns)
                 | Interrupted r \<Rightarrow>
                     andthen
                       ([Print (CHR 0x0A # ''Shutting down server...''), Terminate cmd], Returns)
                       (case r of
                          Some rc \<Rightarrow> ([Reaped cmd rc], Returns)
                        | None \<Rightarrow> ([], Blocks))
                 | RunsOn \<Rightarrow> ([], Blocks)),
              log_output ls))"

text \<open>
  The toolchain check of \<open>main\<close>: both version queries in one \<open>try\<close>, whose handler
  catches \<open>CalledProcessError\<close> and \<open>FileNotFoundError\<close> only.
\<close>

definition check_toolchain :: "world \<Rightarrow> heap \<Rightarrow> effect" where
  "check_toolchain w h =
     (case andthen (subprocess_run w h node_version)
                   (subprocess_run w h npm_version) of
        (evs, Raises e) \<Rightarrow>
          if is_CalledProcessError e \<or> e = FileNotFoundError
          then (evs @ [Print ''Node.js and npm are required but not found''],
                Raises (SystemExit 1))
          else (evs, Raises e)
      | r \<Rightarrow> r)"

text \<open>
  How the interpreter ends: \<open>SystemExit n\<close> gives status \<open>n\<close>, any other uncaught
  exception prints a traceback and gives status 1, a normal return gives 0.
\<close>

fun finish :: "effect \<Rightarrow> event list \<times> int option" where
  "finish (evs, Returns) = (evs, Some 0)"
| "finish (evs, Raises (SystemExit n)) = (evs, Some n)"
| "finish (evs, Raises e) = (evs @ [Traceback e], Some 1)"
| "finish (evs, Blocks) = (evs, None)"

definition main :: "world \<Rightarrow> run" where
  "main w =
     (let h = [os_environ w];
          setup =
            andthen (print ''Emotional Codex Companion - Hugging Face Spaces'')
           (andthen (print (replicate 50 CHR ''=''))
           (andthen (check_toolchain w h)
           (andthen (install_node_dependencies w h)
                    (build_application w h))))
      in case snd setup of
           Returns \<Rightarrow>
             (let (h', eff, out) = start_server w h;
                  (evs, st) = finish (andthen setup eff)
              in \<lparr>trace = evs, relayed = fst out, relay_error = snd out, status = st,
                  store = h'\<rparr>)
         | _ \<Rightarrow>
             (let (evs, st) = finish setup
              in \<lparr>trace = evs, relayed = [], relay_error = None, status = st,
                  store = h\<rparr>))"

subsection \<open>Reading a run\<close>

text \<open>All four setup commands exit with status 0.\<close>

definition setup_ok :: "world \<Rightarrow> bool" where
  "setup_ok w =
     (os_run w node_version = Exits 0 \<and> os_run w npm_version = Exits 0 \<and>
      os_run w npm_install = Exits 0 \<and> os_run w npm_run_build = Exits 0)"

definition toolchain_ok :: "world \<Rightarrow> bool" where
  "toolchain_ok w = (os_run w node_version = Exits 0 \<and> os_run w npm_version = Exits 0)"


fun is_spawn :: "command \<Rightarrow> event \<Rightarrow> bool" where
  "is_spawn cmd (Spawn c e) = (c = cmd)"
| "is_spawn cmd ev = False"

definition spawns :: "command \<Rightarrow> event list \<Rightarrow> bool" where
  "spawns cmd tr = list_ex (is_spawn cmd) tr"



text \<open>
  \<open>precedes a b tr\<close>: reading \<open>tr\<close> from its start, the event \<open>a\<close> is met before any
  spawn of the command \<open>b\<close>, or no such spawn is met at all.
\<close>

fun precedes :: "event \<Rightarrow> command \<Rightarrow> event list \<Rightarrow> bool" where
  "precedes a b [] = True"
| "precedes a b (ev # es) =
     (if is_spawn b ev then False else if ev = a then True else precedes a b es)"

text \<open>
  \<open>comes_before a b tr\<close>: wherever \<open>tr\<close> holds a spawn of the command \<open>b\<close>, it holds
  the event \<open>a\<close> at an earlier position.
\<close>

definition comes_before :: "event \<Rightarrow> command \<Rightarrow> event list \<Rightarrow> bool" where
  "comes_before a b tr = (\<forall>j<length tr. is_spawn b (tr ! j) \<longrightarrow> (\<exists>i<j. tr ! i = a))"

text \<open>
  The processes that are spawned and not yet reaped after a sequence of events, and the
  check that no prefix of a sequence leaves more than one of them.
\<close>

fun step_active :: "command list \<Rightarrow> event \<Rightarrow> command list" where
  "step_active act (Spawn c e) = c # act"
| "step_active act (Reaped c rc) = remove1 c act"
| "step_active act ev = act"

definition active :: "event list \<Rightarrow> command list" where
  "active tr = foldl step_active [] tr"

fun one_at_a_time :: "command list \<Rightarrow> event list \<Rightarrow> bool" where
  "one_at_a_time act [] = (length act \<le> 1)"
| "one_at_a_time act (ev # es) = (length act \<le> 1 \<and> one_at_a_time (step_active act ev) es)"

subsection \<open>Sample surroundings\<close>

definition sample_environ :: environment where
  "sample_environ = [(''PORT'', ''3000''), (''NODE_ENV'', ''development''), (''HOME'', ''/root'')]"

definition all_exit_0 :: "command \<Rightarrow> child" where
  "all_exit_0 c = Exits 0"

definition only_fails :: "command \<Rightarrow> child \<Rightarrow> command \<Rightarrow> child" where
  "only_fails bad r c = (if c = bad then r else Exits 0)"

text \<open>The chunk that holds one line of ASCII text and its line feed.\<close>

definition wrote :: "string \<Rightarrow> chunk" where
  "wrote s = Decoded (ascii s @ [0x0A])"

definition always :: "server \<Rightarrow> command \<Rightarrow> server" where
  "always s c = s"

definition sample_world :: "(command \<Rightarrow> child) \<Rightarrow> server \<Rightarrow> world" where
  "sample_world r s = \<lparr>os_environ = sample_environ, os_run = r, os_popen = always s\<rparr>"

section \<open>Groundwork\<close>

lemma commands_distinct:
  "node_version \<noteq> npm_version" "node_version \<noteq> npm_install" "node_version \<noteq> npm_run_build"
  "node_version \<noteq> npm_start" "npm_version \<noteq> npm_install" "npm_version \<noteq> npm_run_build"
  "npm_version \<noteq> npm_start" "npm_install \<noteq> npm_run_build" "npm_install \<noteq> npm_start"
  "npm_run_build \<noteq> npm_start"
  by (simp_all add: node_version_def npm_version_def npm_install_def npm_run_build_def
      npm_start_def)

lemmas commands_neq [simp] = commands_distinct commands_distinct [symmetric]

lemma oserror_exn_simps [simp]:
  "\<not> is_CalledProcessError (oserror_exn x)"
  "(oserror_exn x = FileNotFoundError) = (x = ENOENT)"
  "finish (evs, Raises (oserror_exn x)) = (evs @ [Traceback (oserror_exn x)], Some 1)"
  by (cases x; simp)+

lemmas defs = main_def andthen_def print_def check_toolchain_def install_node_dependencies_def
  build_application_def start_server_def subprocess_run_def dict_copy_def dict_setitem_def
  environ_ref_def Let_def

text \<open>
  Every world falls into one of twelve cases, by the first command that does not exit
  with status 0 and, when all do, by what becomes of the server.
\<close>

lemma world_cases [case_names node_missing node_fails npm_missing npm_fails install_missing
    install_fails build_missing build_fails launch_fails exits interrupted runs_on]:
  obtains
    x where "os_run w node_version = CannotSpawn x"
  | rc where "os_run w node_version = Exits rc" "rc \<noteq> 0"
  | x where "os_run w node_version = Exits 0" "os_run w npm_version = CannotSpawn x"
  | rc where "os_run w node_version = Exits 0" "os_run w npm_version = Exits rc" "rc \<noteq> 0"
  | x where "toolchain_ok w" "os_run w npm_install = CannotSpawn x"
  | rc where "toolchain_ok w" "os_run w npm_install = Exits rc" "rc \<noteq> 0"
  | x where "toolchain_ok w" "os_run w npm_install = Exits 0"
      "os_run w npm_run_build = CannotSpawn x"
  | rc where "toolchain_ok w" "os_run w npm_install = Exits 0"
      "os_run w npm_run_build = Exits rc" "rc \<noteq> 0"
  | x where "setup_ok w" "os_popen w npm_start = LaunchFails x"
  | ls rc where "setup_ok w" "os_popen w npm_start = Launched ls (ExitsOnOwn rc)"
  | ls r where "setup_ok w" "os_popen w npm_start = Launched ls (Interrupted r)"
  | ls where "setup_ok w" "os_popen w npm_start = Launched ls RunsOn"
proof (cases "os_run w node_version")
  case (CannotSpawn x)
  then show ?thesis by (rule that(1))
next
  case r1: (Exits rc1)
  show ?thesis
  proof (cases "os_run w npm_version")
    case (CannotSpawn x)
    with r1 show ?thesis by (cases "rc1 = 0") (auto intro: that(2) that(3))
  next
    case r2: (Exits rc2)
    show ?thesis
    proof (cases "rc1 = 0 \<and> rc2 = 0")
      case False
      with r1 r2 show ?thesis by (cases "rc1 = 0") (auto intro: that(2) that(4))
    next
      case True
      with r1 r2 have tc: "toolchain_ok w" by (simp add: toolchain_ok_def)
      show ?thesis
      proof (cases "os_run w npm_install")
        case (CannotSpawn x)
        with tc show ?thesis by (rule that(5))
      next
        case r3: (Exits rc3)
        show ?thesis
        proof (cases "rc3 = 0")
          case False
          with tc r3 show ?thesis by (auto intro: that(6))
        next
          case z3: True
          show ?thesis
          proof (cases "os_run w npm_run_build")
            case (CannotSpawn x)
            with tc r3 z3 show ?thesis by (auto intro: that(7))
          next
            case r4: (Exits rc4)
            show ?thesis
            proof (cases "rc4 = 0")
              case False
              with tc r3 z3 r4 show ?thesis by (auto intro: that(8))
            next
              case True
              with tc r3 z3 r4 have ok: "setup_ok w"
                by (simp add: setup_ok_def toolchain_ok_def)
              show ?thesis
              proof (cases "os_popen w npm_start")
                case (LaunchFails x)
                with ok show ?thesis by (rule that(9))
              next
                case (Launched ls f)
                with ok show ?thesis
                  by (cases f) (auto intro: that(10) that(11) that(12))
              qed
            qed
          qed
        qed
      qed
    qed
  qed
qed

lemma status_main:
  "status (main w) =
     (if \<not> setup_ok w then Some 1
      else case os_popen w npm_start of
             LaunchFails e \<Rightarrow> Some 1
           | Launched ls f \<Rightarrow>
               (case f of
                  ExitsOnOwn rc \<Rightarrow> Some 0
                | Interrupted r \<Rightarrow> (case r of Some rc \<Rightarrow> Some 0 | None \<Rightarrow> None)
                | RunsOn \<Rightarrow> None))"
  by (cases w rule: world_cases)
     (simp_all add: defs setup_ok_def toolchain_ok_def split: option.splits)

text \<open>The events of a run, by cases.\<close>

lemma trace_main:
  "trace (main w) =
     Print ''Emotional Codex Companion - Hugging Face Spaces'' #
     Print (replicate 50 CHR ''='') #
     (case os_run w node_version of
        CannotSpawn x \<Rightarrow>
          (case x of
             ENOENT \<Rightarrow> [Print ''Node.js and npm are required but not found'']
           | EACCES \<Rightarrow> [Traceback PermissionError])
      | Exits rc1 \<Rightarrow>
          Spawn node_version (os_environ w) # Reaped node_version rc1 #
          (if rc1 \<noteq> 0 then [Print ''Node.js and npm are required but not found'']
           else case os_run w npm_version of
             CannotSpawn x \<Rightarrow>
               (case x of
                  ENOENT \<Rightarrow> [Print ''Node.js and npm are required but not found'']
                | EACCES \<Rightarrow> [Traceback PermissionError])
           | Exits rc2 \<Rightarrow>
               Spawn npm_version (os_environ w) # Reaped npm_version rc2 #
               (if rc2 \<noteq> 0 then [Print ''Node.js and npm are required but not found'']
                else Print ''Installing Node.js dependencies...'' #
                  (case os_run w npm_install of
                     CannotSpawn x \<Rightarrow> [Traceback (oserror_exn x)]
                   | Exits rc3 \<Rightarrow>
                       Spawn npm_install (os_environ w) # Reaped npm_install rc3 #
                       (if rc3 \<noteq> 0
                        then [PrintExn ''Failed to install dependencies: ''
                                (CalledProcessError rc3 npm_install)]
                        else Print ''Dependencies installed successfully'' #
                          Print ''Building React application...'' #
                          (case os_run w npm_run_build of
                             CannotSpawn x \<Rightarrow> [Traceback (oserror_exn x)]
                           | Exits rc4 \<Rightarrow>
                               Spawn npm_run_build (os_environ w) # Reaped npm_run_build rc4 #
                               (if rc4 \<noteq> 0
                                then [PrintExn ''Failed to build application: ''
                                        (CalledProcessError rc4 npm_run_build)]
                                else Print ''Application built successfully'' #
                                  Print ''Starting Emotional Codex Companion server...'' #
                                  (case os_popen w npm_start of
                                     LaunchFails x \<Rightarrow>
                                       [PrintExn ''Server error: '' (oserror_exn x)]
                                   | Launched ls f \<Rightarrow>
                                       Spawn npm_start
                                         (AList.update ''PORT'' ''7860''
                                           (AList.update ''NODE_ENV'' ''production''
                                             (os_environ w))) #
                                       Print ''Server started successfully on port 7860'' #
                                       Print ''Emotional Codex Companion is now running!'' #
                                       Print ''Features: 91+ emotion variants, professional analysis, cultural context'' #
                                       (case f of
                                          ExitsOnOwn rc \<Rightarrow> [Reaped npm_start rc]
                                        | Interrupted r \<Rightarrow>
                                            Print (CHR 0x0A # ''Shutting down server...'') #
                                            Terminate npm_start #
                                            (case r of
                                               Some rc \<Rightarrow> [Reaped npm_start rc]
                                             | None \<Rightarrow> [])
                                        | RunsOn \<Rightarrow> [])))))))))"
  by (cases w rule: world_cases)
     (simp_all add: defs setup_ok_def toolchain_ok_def split: option.splits oserror.splits)

lemmas facts = trace_main status_main setup_ok_def toolchain_ok_def

lemma precedes_comes_before: "precedes a b tr \<Longrightarrow> comes_before a b tr"
proof (induction tr)
  case Nil
  then show ?case by (simp add: comes_before_def)
next
  case (Cons ev es)
  show ?case unfolding comes_before_def
  proof (intro allI impI)
    fix j
    assume j: "j < length (ev # es)" and sp: "is_spawn b ((ev # es) ! j)"
    from Cons.prems have nb: "\<not> is_spawn b ev" by (simp split: if_splits)
    with sp obtain k where k: "j = Suc k" by (cases j) auto
    show "\<exists>i<j. (ev # es) ! i = a"
    proof (cases "ev = a")
      case True
      with k show ?thesis by (intro exI [of _ 0]) simp
    next
      case False
      with Cons.prems nb have "precedes a b es" by simp
      then have "comes_before a b es" by (rule Cons.IH)
      with j sp k obtain i where "i < k" "es ! i = a"
        by (auto simp: comes_before_def)
      with k show ?thesis by (intro exI [of _ "Suc i"]) simp
    qed
  qed
qed

lemma one_at_a_time_take:
  "one_at_a_time act tr \<Longrightarrow> length (foldl step_active act (take n tr)) \<le> 1"
proof (induction tr arbitrary: act n)
  case Nil
  then show ?case by simp
next
  case (Cons ev es)
  then show ?case by (cases n) simp_all
qed

section \<open>The setup steps\<close>

text \<open>
  C3. When a setup step fails, no later step is invoked: if \<open>npm install\<close> does not
  exit with status 0, neither \<open>npm run build\<close> nor \<open>npm start\<close> is ever spawned, and if
  \<open>npm run build\<close> does not exit with status 0, \<open>npm start\<close> is never spawned.
\<close>

theorem fail_fast_chain:
  "(os_run w npm_install \<noteq> Exits 0 \<longrightarrow>
      \<not> spawns npm_run_build (trace (main w)) \<and> \<not> spawns npm_start (trace (main w))) \<and>
   (os_run w npm_run_build \<noteq> Exits 0 \<longrightarrow> \<not> spawns npm_start (trace (main w)))"
  by (cases w rule: world_cases)
     (simp_all add: facts spawns_def split: option.splits oserror.splits)

theorem fail_fast_chain_witness:
  "os_run (sample_world (only_fails npm_install (Exits 2)) (Launched [] RunsOn)) npm_install
     \<noteq> Exits 0 \<and>
   spawns npm_install
     (trace (main (sample_world (only_fails npm_install (Exits 2)) (Launched [] RunsOn)))) \<and>
   \<not> spawns npm_run_build
     (trace (main (sample_world (only_fails npm_install (Exits 2)) (Launched [] RunsOn)))) \<and>
   \<not> spawns npm_start
     (trace (main (sample_world (only_fails npm_install (Exits 2)) (Launched [] RunsOn)))) \<and>
   os_run (sample_world (only_fails npm_run_build (CannotSpawn ENOENT)) (Launched [] RunsOn))
     npm_run_build \<noteq> Exits 0 \<and>
   \<not> spawns npm_start
     (trace (main (sample_world (only_fails npm_run_build (CannotSpawn ENOENT))
        (Launched [] RunsOn))))"
  using fail_fast_chain [of "sample_world (only_fails npm_install (Exits 2)) (Launched [] RunsOn)"]
    fail_fast_chain [of "sample_world (only_fails npm_run_build (CannotSpawn ENOENT))
      (Launched [] RunsOn)"]
  by (simp add: sample_world_def only_fails_def always_def defs spawns_def)

text \<open>
  C7. The phases are ordered. Wherever a run spawns \<open>npm install\<close> or \<open>npm run build\<close>,
  both version queries have been reaped with status 0 earlier; wherever it spawns
  \<open>npm run build\<close>, \<open>npm install\<close> has been reaped with status 0 earlier; wherever it
  spawns \<open>npm start\<close>, \<open>npm run build\<close> has been reaped with status 0 earlier.
\<close>

theorem phases_ordered:
  "comes_before (Reaped node_version 0) npm_install (trace (main w)) \<and>
   comes_before (Reaped npm_version 0) npm_install (trace (main w)) \<and>
   comes_before (Reaped node_version 0) npm_run_build (trace (main w)) \<and>
   comes_before (Reaped npm_version 0) npm_run_build (trace (main w)) \<and>
   comes_before (Reaped npm_install 0) npm_run_build (trace (main w)) \<and>
   comes_before (Reaped npm_run_build 0) npm_start (trace (main w))"
proof -
  have "precedes (Reaped node_version 0) npm_install (trace (main w))"
    and "precedes (Reaped npm_version 0) npm_install (trace (main w))"
    and "precedes (Reaped node_version 0) npm_run_build (trace (main w))"
    and "precedes (Reaped npm_version 0) npm_run_build (trace (main w))"
    and "precedes (Reaped npm_install 0) npm_run_build (trace (main w))"
    and "precedes (Reaped npm_run_build 0) npm_start (trace (main w))"
    by (cases w rule: world_cases;
        simp add: facts split: option.splits oserror.splits)+
  then show ?thesis by (simp add: precedes_comes_before)
qed

theorem phases_ordered_witness:
  "15 < length (trace (main (sample_world all_exit_0 (Launched [] RunsOn)))) \<and>
   is_spawn npm_start (trace (main (sample_world all_exit_0 (Launched [] RunsOn))) ! 15) \<and>
   (\<exists>i<15. trace (main (sample_world all_exit_0 (Launched [] RunsOn))) ! i
      = Reaped npm_run_build 0)"
proof -
  let ?tr = "trace (main (sample_world all_exit_0 (Launched [] RunsOn)))"
  have cb: "comes_before (Reaped npm_run_build 0) npm_start ?tr"
    using phases_ordered [of "sample_world all_exit_0 (Launched [] RunsOn)"] by simp
  have len: "15 < length ?tr" and sp: "is_spawn npm_start (?tr ! 15)"
    by (simp_all add: sample_world_def all_exit_0_def always_def defs)
  from cb len sp have "\<exists>i<15. ?tr ! i = Reaped npm_run_build 0"
    unfolding comes_before_def by blast
  with len sp show ?thesis by simp
qed

text \<open>
  C9. At most one process is active in every reachable state: after every prefix of the
  events of a run, at most one process is spawned and not yet reaped. At the end of a
  run no process is active, or the server alone is.
\<close>

theorem at_most_one_active:
  "length (active (take n (trace (main w)))) \<le> 1 \<and>
   (active (trace (main w)) = [] \<or> active (trace (main w)) = [npm_start])"
proof -
  have "one_at_a_time [] (trace (main w))"
    by (cases w rule: world_cases)
       (simp_all add: facts split: option.splits oserror.splits)
  then have "length (active (take n (trace (main w)))) \<le> 1"
    unfolding active_def by (rule one_at_a_time_take)
  moreover have "active (trace (main w)) = [] \<or> active (trace (main w)) = [npm_start]"
    by (cases w rule: world_cases)
       (simp_all add: facts active_def split: option.splits oserror.splits)
  ultimately show ?thesis by simp
qed

text \<open>
  C2, as the code has it. When \<open>npm install\<close> or \<open>npm run build\<close> exits with a non-zero
  status \<open>C\<close>, the run ends at once with exit status 1, whatever \<open>C\<close> is: the last thing
  it does is print the failure message, which carries \<open>C\<close> inside the exception, and the
  server is never spawned.
\<close>

theorem setup_failure_exits_1:
  assumes "toolchain_ok w"
    and "step = npm_install \<or> step = npm_run_build \<and> os_run w npm_install = Exits 0"
    and "os_run w step = Exits C" and "C \<noteq> 0"
  shows "status (main w) = Some 1 \<and>
         (\<exists>msg. last (trace (main w)) = PrintExn msg (CalledProcessError C step)) \<and>
         \<not> spawns npm_start (trace (main w))"
  using assms
  by (cases w rule: world_cases)
     (auto simp: facts spawns_def)

theorem setup_failure_exits_1_witness:
  "toolchain_ok (sample_world (only_fails npm_run_build (Exits 7)) (Launched [] RunsOn)) \<and>
   os_run (sample_world (only_fails npm_run_build (Exits 7)) (Launched [] RunsOn)) npm_install
     = Exits 0 \<and>
   os_run (sample_world (only_fails npm_run_build (Exits 7)) (Launched [] RunsOn)) npm_run_build
     = Exits 7 \<and>
   status (main (sample_world (only_fails npm_run_build (Exits 7)) (Launched [] RunsOn)))
     = Some 1 \<and>
   last (trace (main (sample_world (only_fails npm_run_build (Exits 7)) (Launched [] RunsOn))))
     = PrintExn ''Failed to build application: '' (CalledProcessError 7 npm_run_build)"
  using setup_failure_exits_1 [of "sample_world (only_fails npm_run_build (Exits 7))
      (Launched [] RunsOn)" npm_run_build 7]
  by (simp add: sample_world_def only_fails_def always_def toolchain_ok_def defs)

text \<open>
  The claim C2 as the specification words it asks for an exit status that reflects \<open>C\<close>.
  With \<open>npm install\<close> exiting with status 2 the run exits with status 1, not 2, and
  with status 3 it exits with status 1 again.
\<close>

theorem setup_failure_counterexample:
  "toolchain_ok (sample_world (only_fails npm_install (Exits 2)) (Launched [] RunsOn)) \<and>
   os_run (sample_world (only_fails npm_install (Exits 2)) (Launched [] RunsOn)) npm_install
     = Exits 2 \<and>
   status (main (sample_world (only_fails npm_install (Exits 2)) (Launched [] RunsOn)))
     = Some 1 \<and>
   status (main (sample_world (only_fails npm_install (Exits 2)) (Launched [] RunsOn)))
     \<noteq> Some 2 \<and>
   os_run (sample_world (only_fails npm_install (Exits 3)) (Launched [] RunsOn)) npm_install
     = Exits 3 \<and>
   status (main (sample_world (only_fails npm_install (Exits 3)) (Launched [] RunsOn)))
     = Some 1"
  by (simp add: sample_world_def only_fails_def always_def toolchain_ok_def defs)

section \<open>The toolchain check\<close>





section \<open>The server\<close>




text \<open>The lines of a text are the text, cut into pieces: nothing is lost or moved.\<close>

lemma concat_lines_from: "concat (lines_from cur t) = cur @ t"
  by (induction t arbitrary: cur) simp_all

lemma concat_text_lines: "concat (text_lines t) = translate_newlines t"
  by (simp add: text_lines_def concat_lines_from)

text \<open>
  What \<open>strip\<close> removes from a text is white space at its two ends, and what it leaves
  neither starts nor ends with white space.
\<close>

lemma strip_sandwich:
  "\<exists>a b. l = a @ strip l @ b \<and> (\<forall>c\<in>set a. is_space c) \<and> (\<forall>c\<in>set b. is_space c)"
proof -
  let ?m = "dropWhile is_space l"
  have "l = takeWhile is_space l @ ?m" by simp
  moreover have "?m = rev (dropWhile is_space (rev ?m)) @ rev (takeWhile is_space (rev ?m))"
    by (metis rev_append rev_rev_ident takeWhile_dropWhile_id)
  ultimately have "l = takeWhile is_space l @ strip l @ rev (takeWhile is_space (rev ?m))"
    by (simp add: strip_def)
  moreover have "\<forall>c\<in>set (takeWhile is_space l). is_space c"
    by (auto dest: set_takeWhileD)
  moreover have "\<forall>c\<in>set (rev (takeWhile is_space (rev ?m))). is_space c"
    by (auto dest: set_takeWhileD)
  ultimately show ?thesis by blast
qed







text \<open>
  When a chunk of the output does not decode, the relay thread prints the complete lines
  that came before it and ends with \<open>UnicodeDecodeError\<close>; the main thread goes on.
\<close>

lemma relay_undecodable:
  "relayed (main (sample_world all_exit_0
     (Launched [Decoded (ascii ''one'' @ [0x0A] @ ascii ''tw''), Undecodable, wrote ''three'']
        (ExitsOnOwn 0))))
     = [ascii ''[SERVER] one''] \<and>
   relay_error (main (sample_world all_exit_0
     (Launched [Decoded (ascii ''one'' @ [0x0A] @ ascii ''tw''), Undecodable, wrote ''three'']
        (ExitsOnOwn 0)))) = Some UnicodeDecodeError \<and>
   status (main (sample_world all_exit_0
     (Launched [Decoded (ascii ''one'' @ [0x0A] @ ascii ''tw''), Undecodable, wrote ''three'']
        (ExitsOnOwn 0)))) = Some 0"
  by (simp add: sample_world_def all_exit_0_def always_def setup_ok_def defs wrote_def
      log_output_def readlines_def text_lines_def held_back_def complete_def strip_def
      is_space_def ascii_def)

lemma trace_launched:
  assumes "setup_ok w" and "os_popen w npm_start = Launched ls f"
  shows "\<exists>pre post. trace (main w) =
           pre @ Spawn npm_start
                   (AList.update ''PORT'' ''7860''
                      (AList.update ''NODE_ENV'' ''production'' (os_environ w))) # post \<and>
           \<not> spawns npm_start pre \<and> \<not> spawns npm_start post \<and> active pre = []"
proof -
  let ?env = "AList.update ''PORT'' ''7860''
                (AList.update ''NODE_ENV'' ''production'' (os_environ w))"
  let ?pre = "[Print ''Emotional Codex Companion - Hugging Face Spaces'',
       Print (replicate 50 CHR ''=''),
       Spawn node_version (os_environ w), Reaped node_version 0,
       Spawn npm_version (os_environ w), Reaped npm_version 0,
       Print ''Installing Node.js dependencies...'',
       Spawn npm_install (os_environ w), Reaped npm_install 0,
       Print ''Dependencies installed successfully'',
       Print ''Building React application...'',
       Spawn npm_run_build (os_environ w), Reaped npm_run_build 0,
       Print ''Application built successfully'',
       Print ''Starting Emotional Codex Companion server...'']"
  let ?post = "Print ''Server started successfully on port 7860'' #
       Print ''Emotional Codex Companion is now running!'' #
       Print ''Features: 91+ emotion variants, professional analysis, cultural context'' #
       (case f of
          ExitsOnOwn rc \<Rightarrow> [Reaped npm_start rc]
        | Interrupted r \<Rightarrow>
            Print (CHR 0x0A # ''Shutting down server...'') # Terminate npm_start #
            (case r of Some rc \<Rightarrow> [Reaped npm_start rc] | None \<Rightarrow> [])
        | RunsOn \<Rightarrow> [])"
  from assms have "trace (main w) = ?pre @ Spawn npm_start ?env # ?post"
    by (cases f) (simp_all add: defs setup_ok_def split: option.splits)
  moreover have "\<not> spawns npm_start ?pre" and "active ?pre = []"
    by (simp_all add: spawns_def active_def)
  moreover have "\<not> spawns npm_start ?post"
    by (cases f) (simp_all add: spawns_def split: option.splits)
  ultimately show ?thesis by blast
qed

text \<open>
  C6. Whatever the ambient environment binds, a launched server is spawned with an
  environment in which \<open>NODE_ENV\<close> is \<open>production\<close> and \<open>PORT\<close> is \<open>7860\<close>, and every other
  name is bound as in the ambient environment.
\<close>

theorem server_environment:
  assumes "setup_ok w" and "os_popen w npm_start = Launched ls f"
  shows "(\<exists>env. Spawn npm_start env \<in> set (trace (main w))) \<and>
         (\<forall>env. Spawn npm_start env \<in> set (trace (main w)) \<longrightarrow>
            map_of env ''NODE_ENV'' = Some ''production'' \<and>
            map_of env ''PORT'' = Some ''7860'' \<and>
            (\<forall>k. k \<noteq> ''NODE_ENV'' \<and> k \<noteq> ''PORT'' \<longrightarrow>
               map_of env k = map_of (os_environ w) k))"
proof -
  let ?env = "AList.update ''PORT'' ''7860''
                (AList.update ''NODE_ENV'' ''production'' (os_environ w))"
  from trace_launched [OF assms] obtain pre post
    where tr: "trace (main w) = pre @ Spawn npm_start ?env # post"
      and pre: "\<not> spawns npm_start pre" and post: "\<not> spawns npm_start post"
    by blast
  have only: "env = ?env" if "Spawn npm_start env \<in> set (trace (main w))" for env
  proof -
    from pre have "Spawn npm_start env \<notin> set pre"
      by (auto simp: spawns_def list_ex_iff)
    moreover from post have "Spawn npm_start env \<notin> set post"
      by (auto simp: spawns_def list_ex_iff)
    ultimately show ?thesis using that tr by simp
  qed
  have "map_of ?env ''NODE_ENV'' = Some ''production''"
    and "map_of ?env ''PORT'' = Some ''7860''"
    and "\<forall>k. k \<noteq> ''NODE_ENV'' \<and> k \<noteq> ''PORT'' \<longrightarrow> map_of ?env k = map_of (os_environ w) k"
    by (simp_all add: update_conv')
  with only tr show ?thesis by auto
qed

theorem server_environment_witness:
  "setup_ok (sample_world all_exit_0 (Launched [] RunsOn)) \<and>
   os_popen (sample_world all_exit_0 (Launched [] RunsOn)) npm_start = Launched [] RunsOn \<and>
   map_of (os_environ (sample_world all_exit_0 (Launched [] RunsOn))) ''PORT'' = Some ''3000'' \<and>
   map_of (os_environ (sample_world all_exit_0 (Launched [] RunsOn))) ''NODE_ENV''
     = Some ''development'' \<and>
   Spawn npm_start [(''PORT'', ''7860''), (''NODE_ENV'', ''production''), (''HOME'', ''/root'')]
     \<in> set (trace (main (sample_world all_exit_0 (Launched [] RunsOn)))) \<and>
   map_of [(''PORT'', ''7860''), (''NODE_ENV'', ''production''), (''HOME'', ''/root'')] ''PORT''
     = Some ''7860'' \<and>
   map_of [(''PORT'', ''7860''), (''NODE_ENV'', ''production''), (''HOME'', ''/root'')] ''NODE_ENV''
     = Some ''production''"
proof -
  let ?w = "sample_world all_exit_0 (Launched [] RunsOn)"
  let ?env = "[(''PORT'', ''7860''), (''NODE_ENV'', ''production''), (''HOME'', ''/root'')]"
  have ok: "setup_ok ?w" and po: "os_popen ?w npm_start = Launched [] RunsOn"
    by (simp_all add: sample_world_def all_exit_0_def always_def setup_ok_def)
  have amb: "map_of (os_environ ?w) ''PORT'' = Some ''3000''"
    "map_of (os_environ ?w) ''NODE_ENV'' = Some ''development''"
    by (simp_all add: sample_world_def sample_environ_def)
  have sp: "Spawn npm_start ?env \<in> set (trace (main ?w))"
    by (simp add: sample_world_def sample_environ_def all_exit_0_def always_def defs)
  with server_environment [OF ok po]
  have "map_of ?env ''NODE_ENV'' = Some ''production'' \<and> map_of ?env ''PORT'' = Some ''7860''"
    by blast
  with ok po amb sp show ?thesis by simp
qed




text \<open>
  C10. Launching the server leaves the Supervisor's own environment as it was: the
  dictionary that \<open>os.environ\<close> refers to is the same after \<open>start_server\<close> as before,
  since the two assignments go to the copy. So it is at the end of every run.
\<close>

theorem environ_unchanged:
  "(h \<noteq> [] \<longrightarrow> fst (start_server w h) ! environ_ref = h ! environ_ref) \<and>
   store (main w) ! environ_ref = os_environ w"
proof
  show "h \<noteq> [] \<longrightarrow> fst (start_server w h) ! environ_ref = h ! environ_ref"
    by (cases "os_popen w npm_start")
       (simp_all add: start_server_def dict_copy_def dict_setitem_def environ_ref_def
          Let_def nth_append)
  show "store (main w) ! environ_ref = os_environ w"
    by (cases w rule: world_cases)
       (simp_all add: defs setup_ok_def toolchain_ok_def split: prod.splits)
qed

theorem environ_unchanged_witness:
  "[sample_environ] \<noteq> [] \<and>
   fst (start_server (sample_world all_exit_0 (Launched [] RunsOn)) [sample_environ]) ! environ_ref
     = sample_environ \<and>
   fst (start_server (sample_world all_exit_0 (Launched [] RunsOn)) [sample_environ]) ! 1
     = [(''PORT'', ''7860''), (''NODE_ENV'', ''production''), (''HOME'', ''/root'')] \<and>
   store (main (sample_world all_exit_0 (Launched [] RunsOn))) ! environ_ref = sample_environ"
  using environ_unchanged [of "[sample_environ]" "sample_world all_exit_0 (Launched [] RunsOn)"]
  by (simp add: sample_world_def sample_environ_def always_def start_server_def dict_copy_def
      dict_setitem_def environ_ref_def)

end
